theory Spec2Isabelle
  imports Main "HOL-Library.Sublist"
begin

section \<open>The music recogniser bot: a model of \<open>telegram_music_recognizer_bot.py\<close>\<close>

text \<open>
  The program is one linear handler, \<open>handle_msg\<close>, and two helpers, \<open>convert_to_wav\<close>
  and \<open>recognize_with_shazam\<close>. Everything it does beyond branching is a call into a
  library or the operating system: the messaging transport, the temporary directory, the
  download, the \<open>ffmpeg\<close> subprocess, the recognition engine. The model keeps the
  program's control flow as it is written and takes the outcome of every such call from
  an environment record, so that a theorem about the handler holds for whatever those
  calls do. What the handler does to the outside is recorded in a trace of events and in
  a file system that is passed along.

  The physical lines of the source file have lost part of their line structure (the three
  \<open>def\<close> headers share a line with the first statements of their bodies); the
  statements and the indentation of the handler's body are intact and are followed here.
\<close>

subsection \<open>Python values\<close>

text \<open>
  The recognition engine returns parsed JSON: \<open>None\<close>, booleans, numbers, strings, lists
  and dictionaries with string keys. A dictionary is an association list in which the
  first binding of a key is the one that counts. Numbers are integers here; a float takes
  the same branch as an integer everywhere in the handler (it has no \<open>get\<close>, it cannot be
  iterated or indexed, it is not a list or a dictionary), and how any value that is not a
  string is printed is left to the environment. Strings are byte strings holding UTF-8.
\<close>

datatype pyval =
    PNone
  | PBool bool
  | PInt int
  | PStr string
  | PList "pyval list"
  | PDict "(string \<times> pyval) list"

text \<open>
  The exceptions the handler's own expressions can raise, \<open>External\<close> for an exception
  that comes out of a library call and is an instance of \<open>Exception\<close> (a transport
  error, an operating system error), tagged with its name, and the three exceptions that
  derive from \<open>BaseException\<close> only: a cancelled task (since Python 3.8), an interrupt
  from the keyboard, and \<open>sys.exit\<close>.
\<close>

datatype exn =
    AttributeError
  | TypeError
  | IndexError
  | KeyError
  | FileNotFoundError
  | IsADirectoryError
  | External string
  | CancelledError
  | KeyboardInterrupt
  | SystemExit

text \<open>\<open>isinstance(e, Exception)\<close>: what a clause \<open>except Exception\<close> catches.\<close>

fun is_exception :: "exn \<Rightarrow> bool" where
  "is_exception CancelledError = False"
| "is_exception KeyboardInterrupt = False"
| "is_exception SystemExit = False"
| "is_exception e = True"

text \<open>Truth value testing, as \<open>if x\<close>, \<open>x or y\<close> and \<open>x and y\<close> do it.\<close>

fun truthy :: "pyval \<Rightarrow> bool" where
  "truthy PNone = False"
| "truthy (PBool b) = b"
| "truthy (PInt n) = (n \<noteq> 0)"
| "truthy (PStr s) = (s \<noteq> [])"
| "truthy (PList xs) = (xs \<noteq> [])"
| "truthy (PDict kvs) = (kvs \<noteq> [])"

text \<open>\<open>x or d\<close>.\<close>

definition py_or :: "pyval \<Rightarrow> pyval \<Rightarrow> pyval" where
  "py_or x d = (if truthy x then x else d)"

text \<open>\<open>isinstance(x, dict)\<close> and \<open>isinstance(x, list)\<close>.\<close>

fun is_dict :: "pyval \<Rightarrow> bool" where
  "is_dict (PDict kvs) = True"
| "is_dict v = False"

fun is_list :: "pyval \<Rightarrow> bool" where
  "is_list (PList xs) = True"
| "is_list v = False"

text \<open>
  \<open>x.get(k, d)\<close>: only a dictionary has the method; on any other JSON value the attribute
  lookup raises. \<open>x.get(k)\<close> is \<open>x.get(k, None)\<close>.
\<close>

fun py_get_default :: "pyval \<Rightarrow> string \<Rightarrow> pyval \<Rightarrow> exn + pyval" where
  "py_get_default (PDict kvs) k d = Inr (case map_of kvs k of None \<Rightarrow> d | Some v \<Rightarrow> v)"
| "py_get_default v k d = Inl AttributeError"

definition py_get :: "pyval \<Rightarrow> string \<Rightarrow> exn + pyval" where
  "py_get x k = py_get_default x k PNone"

text \<open>
  The characters of a string: a byte that is not a UTF-8 continuation byte starts a
  character, the continuation bytes after it belong to it.
\<close>

definition is_continuation :: "char \<Rightarrow> bool" where
  "is_continuation c = (128 \<le> (of_char c :: nat) \<and> (of_char c :: nat) < 192)"

fun utf8_chars :: "string \<Rightarrow> string list" where
  "utf8_chars [] = []"
| "utf8_chars (c # cs) =
     (case cs of
        [] \<Rightarrow> [[c]]
      | c' # cs' \<Rightarrow>
          if is_continuation c' then
            (case utf8_chars cs of [] \<Rightarrow> [[c]] | g # gs \<Rightarrow> (c # g) # gs)
          else [c] # utf8_chars cs)"

text \<open>
  \<open>for p in x\<close>: a list gives its elements, a dictionary its keys, a string its
  characters; nothing else can be iterated.
\<close>

fun py_iter :: "pyval \<Rightarrow> exn + pyval list" where
  "py_iter (PList xs) = Inr xs"
| "py_iter (PDict kvs) = Inr (map PStr (remdups (map fst kvs)))"
| "py_iter (PStr s) = Inr (map PStr (utf8_chars s))"
| "py_iter v = Inl TypeError"

text \<open>
  \<open>x[0]\<close>: the first element of a list or the first character of a string, IndexError when
  there is none; a dictionary with string keys has no key \<open>0\<close>; nothing else can be
  subscripted.
\<close>

fun py_index0 :: "pyval \<Rightarrow> exn + pyval" where
  "py_index0 (PList xs) = (case xs of [] \<Rightarrow> Inl IndexError | x # _ \<Rightarrow> Inr x)"
| "py_index0 (PStr s) = (case utf8_chars s of [] \<Rightarrow> Inl IndexError | g # _ \<Rightarrow> Inr (PStr g))"
| "py_index0 (PDict kvs) = Inl KeyError"
| "py_index0 v = Inl TypeError"

text \<open>
  A replacement field \<open>{x}\<close> of an f-string: a string is inserted as it is, any other value
  through the built-in \<open>str\<close>, which is a parameter of the model.
\<close>

definition py_format :: "(pyval \<Rightarrow> string) \<Rightarrow> pyval \<Rightarrow> string" where
  "py_format builtin_str v = (case v of PStr s \<Rightarrow> s | _ \<Rightarrow> builtin_str v)"

subsection \<open>The fixed texts\<close>

text \<open>
  The string literals of the handler, as the UTF-8 bytes of the source file: the usage
  prompt, the download error, the conversion error, the no-match text, and the literal
  parts of the two f-strings (with their \<open>\n\<close> as the byte \<open>0x0A\<close>).
\<close>

definition MSG_PROMPT :: string where
  "MSG_PROMPT = [
    CHR 0xD8, CHR 0xA7, CHR 0xD8, CHR 0xB1, CHR 0xD8, CHR 0xB3, CHR 0xD9, CHR 0x84,
    CHR 0x20, CHR 0xD9, CHR 0x85, CHR 0xD9, CHR 0x84, CHR 0xD9, CHR 0x81, CHR 0x20,
    CHR 0xD8, CHR 0xB5, CHR 0xD9, CHR 0x88, CHR 0xD8, CHR 0xAA, CHR 0xD9, CHR 0x8A,
    CHR 0x2F, CHR 0xD9, CHR 0x81, CHR 0xD9, CHR 0x8A, CHR 0xD8, CHR 0xAF, CHR 0xD9,
    CHR 0x8A, CHR 0xD9, CHR 0x88, CHR 0x20, CHR 0xD8, CHR 0xA7, CHR 0xD9, CHR 0x88,
    CHR 0x20, CHR 0xD8, CHR 0xB1, CHR 0xD8, CHR 0xB3, CHR 0xD8, CHR 0xA7, CHR 0xD9,
    CHR 0x84, CHR 0xD8, CHR 0xA9, CHR 0x20, CHR 0xD8, CHR 0xB5, CHR 0xD9, CHR 0x88,
    CHR 0xD8, CHR 0xAA, CHR 0xD9, CHR 0x8A, CHR 0xD8, CHR 0xA9, CHR 0x20, CHR 0xD8,
    CHR 0xAD, CHR 0xD8, CHR 0xAA, CHR 0xD9, CHR 0x89, CHR 0x20, CHR 0xD8, CHR 0xA7,
    CHR 0xD8, CHR 0xB9, CHR 0xD8, CHR 0xB1, CHR 0xD9, CHR 0x81, CHR 0x20, CHR 0xD8,
    CHR 0xA7, CHR 0xD8, CHR 0xB3, CHR 0xD9, CHR 0x85, CHR 0x20, CHR 0xD8, CHR 0xA7,
    CHR 0xD9, CHR 0x84, CHR 0xD8, CHR 0xA7, CHR 0xD8, CHR 0xBA, CHR 0xD9, CHR 0x86,
    CHR 0xD9, CHR 0x8A, CHR 0xD8, CHR 0xA9, CHR 0x2E]"

definition MSG_DOWNLOAD_ERROR :: string where
  "MSG_DOWNLOAD_ERROR = [
    CHR 0xD8, CHR 0xAE, CHR 0xD8, CHR 0xB7, CHR 0xD8, CHR 0xA3, CHR 0x20, CHR 0xD8,
    CHR 0xA8, CHR 0xD8, CHR 0xAA, CHR 0xD9, CHR 0x86, CHR 0xD8, CHR 0xB2, CHR 0xD9,
    CHR 0x8A, CHR 0xD9, CHR 0x84, CHR 0x20, CHR 0xD8, CHR 0xA7, CHR 0xD9, CHR 0x84,
    CHR 0xD9, CHR 0x85, CHR 0xD9, CHR 0x84, CHR 0xD9, CHR 0x81, CHR 0x2E, CHR 0x20,
    CHR 0xD8, CHR 0xAD, CHR 0xD8, CHR 0xA7, CHR 0xD9, CHR 0x88, CHR 0xD9, CHR 0x84,
    CHR 0x20, CHR 0xD9, CHR 0x85, CHR 0xD8, CHR 0xB1, CHR 0xD8, CHR 0xA9, CHR 0x20,
    CHR 0xD8, CHR 0xAB, CHR 0xD8, CHR 0xA7, CHR 0xD9, CHR 0x86, CHR 0xD9, CHR 0x8A,
    CHR 0xD8, CHR 0xA9, CHR 0x2E]"

definition MSG_UNSUPPORTED :: string where
  "MSG_UNSUPPORTED = [
    CHR 0xD9, CHR 0x85, CHR 0xD8, CHR 0xA7, CHR 0x20, CHR 0xD8, CHR 0xA7, CHR 0xD9,
    CHR 0x83, CHR 0xD8, CHR 0xAF, CHR 0xD8, CHR 0xB1, CHR 0x20, CHR 0xD8, CHR 0xA7,
    CHR 0xD8, CHR 0xAD, CHR 0xD9, CHR 0x88, CHR 0xD9, CHR 0x84, CHR 0x20, CHR 0xD8,
    CHR 0xA7, CHR 0xD9, CHR 0x84, CHR 0xD9, CHR 0x85, CHR 0xD9, CHR 0x84, CHR 0xD9,
    CHR 0x81, CHR 0x20, CHR 0xD9, CHR 0x84, CHR 0xD8, CHR 0xB5, CHR 0xD9, CHR 0x8A,
    CHR 0xD8, CHR 0xBA, CHR 0xD8, CHR 0xA9, CHR 0x20, CHR 0xD9, CHR 0x8A, CHR 0xD8,
    CHR 0xAF, CHR 0xD8, CHR 0xB9, CHR 0xD9, CHR 0x85, CHR 0xD9, CHR 0x87, CHR 0xD8,
    CHR 0xA7, CHR 0x20, CHR 0xD9, CHR 0x85, CHR 0xD8, CHR 0xAD, CHR 0xD8, CHR 0xB1,
    CHR 0xD9, CHR 0x83, CHR 0x20, CHR 0xD8, CHR 0xA7, CHR 0xD9, CHR 0x84, CHR 0xD8,
    CHR 0xAA, CHR 0xD8, CHR 0xB9, CHR 0xD8, CHR 0xB1, CHR 0xD9, CHR 0x81, CHR 0x2E,
    CHR 0x20, CHR 0xD8, CHR 0xAA, CHR 0xD8, CHR 0xA3, CHR 0xD9, CHR 0x83, CHR 0xD8,
    CHR 0xAF, CHR 0x20, CHR 0xD8, CHR 0xA7, CHR 0xD9, CHR 0x84, CHR 0xD9, CHR 0x85,
    CHR 0xD9, CHR 0x84, CHR 0xD9, CHR 0x81, CHR 0x20, CHR 0xD8, CHR 0xB5, CHR 0xD8,
    CHR 0xAD, CHR 0xD9, CHR 0x8A, CHR 0xD8, CHR 0xAD, CHR 0x20, CHR 0xD8, CHR 0xA3,
    CHR 0xD9, CHR 0x88, CHR 0x20, CHR 0xD8, CHR 0xA7, CHR 0xD8, CHR 0xAC, CHR 0xD8,
    CHR 0xB1, CHR 0xD8, CHR 0xA8, CHR 0x20, CHR 0xD8, CHR 0xB5, CHR 0xD9, CHR 0x8A,
    CHR 0xD8, CHR 0xBA, CHR 0xD8, CHR 0xA9, CHR 0x20, CHR 0xD8, CHR 0xAB, CHR 0xD8,
    CHR 0xA7, CHR 0xD9, CHR 0x86, CHR 0xD9, CHR 0x8A, CHR 0xD8, CHR 0xA9, CHR 0x2E]"

definition MSG_NO_MATCH :: string where
  "MSG_NO_MATCH = [
    CHR 0xD9, CHR 0x85, CHR 0xD8, CHR 0xA7, CHR 0xD9, CHR 0x83, CHR 0xD8, CHR 0xAF,
    CHR 0xD8, CHR 0xB1, CHR 0x20, CHR 0xD8, CHR 0xA7, CHR 0xD8, CHR 0xAA, CHR 0xD8,
    CHR 0xB9, CHR 0xD8, CHR 0xB1, CHR 0xD9, CHR 0x81, CHR 0x20, CHR 0xD8, CHR 0xB9,
    CHR 0xD9, CHR 0x84, CHR 0xD9, CHR 0x89, CHR 0x20, CHR 0xD8, CHR 0xA7, CHR 0xD9,
    CHR 0x84, CHR 0xD8, CHR 0xA7, CHR 0xD8, CHR 0xBA, CHR 0xD9, CHR 0x86, CHR 0xD9,
    CHR 0x8A, CHR 0xD8, CHR 0xA9, CHR 0x2E, CHR 0x20, CHR 0xD8, CHR 0xAC, CHR 0xD8,
    CHR 0xB1, CHR 0xD8, CHR 0xA8, CHR 0x20, CHR 0xD8, CHR 0xB5, CHR 0xD9, CHR 0x88,
    CHR 0xD8, CHR 0xAA, CHR 0x20, CHR 0xD8, CHR 0xA3, CHR 0xD9, CHR 0x88, CHR 0x20,
    CHR 0xD9, CHR 0x85, CHR 0xD9, CHR 0x82, CHR 0xD8, CHR 0xB7, CHR 0xD8, CHR 0xB9,
    CHR 0x20, CHR 0xD8, CHR 0xA3, CHR 0xD8, CHR 0xB7, CHR 0xD9, CHR 0x88, CHR 0xD9,
    CHR 0x84, CHR 0x20, CHR 0xD8, CHR 0xA3, CHR 0xD9, CHR 0x88, CHR 0x20, CHR 0xD8,
    CHR 0xA7, CHR 0xD8, CHR 0xB3, CHR 0xD8, CHR 0xAA, CHR 0xD8, CHR 0xB9, CHR 0xD9,
    CHR 0x85, CHR 0xD9, CHR 0x84, CHR 0x20, CHR 0xD8, CHR 0xAE, CHR 0xD8, CHR 0xAF,
    CHR 0xD9, CHR 0x85, CHR 0xD8, CHR 0xA9, CHR 0x20, CHR 0xD8, CHR 0xAB, CHR 0xD8,
    CHR 0xA7, CHR 0xD9, CHR 0x86, CHR 0xD9, CHR 0x8A, CHR 0xD8, CHR 0xA9, CHR 0x20,
    CHR 0x28, CHR 0x41, CHR 0x43, CHR 0x52, CHR 0x43, CHR 0x6C, CHR 0x6F, CHR 0x75,
    CHR 0x64, CHR 0x20, CHR 0x2F, CHR 0x20, CHR 0x41, CHR 0x75, CHR 0x64, CHR 0x64,
    CHR 0x29, CHR 0x2E]"

definition REPLY_HEAD :: string where
  "REPLY_HEAD = [
    CHR 0xD9, CHR 0x85, CHR 0xD9, CHR 0x85, CHR 0xD9, CHR 0x83, CHR 0xD9, CHR 0x86,
    CHR 0x20, CHR 0xD9, CHR 0x87, CHR 0xD8, CHR 0xB0, CHR 0xD9, CHR 0x8A, CHR 0x20,
    CHR 0xD8, CHR 0xA7, CHR 0xD9, CHR 0x84, CHR 0xD8, CHR 0xA3, CHR 0xD8, CHR 0xBA,
    CHR 0xD9, CHR 0x86, CHR 0xD9, CHR 0x8A, CHR 0xD8, CHR 0xA9, CHR 0x3A, CHR 0x0A,
    CHR 0x2D, CHR 0x20, CHR 0xD8, CHR 0xA7, CHR 0xD9, CHR 0x84, CHR 0xD8, CHR 0xB9,
    CHR 0xD9, CHR 0x86, CHR 0xD9, CHR 0x88, CHR 0xD8, CHR 0xA7, CHR 0xD9, CHR 0x86,
    CHR 0x3A, CHR 0x20]"

definition REPLY_MID :: string where
  "REPLY_MID = [
    CHR 0x0A, CHR 0x2D, CHR 0x20, CHR 0xD8, CHR 0xA7, CHR 0xD9, CHR 0x84, CHR 0xD9,
    CHR 0x81, CHR 0xD9, CHR 0x86, CHR 0xD8, CHR 0xA7, CHR 0xD9, CHR 0x86, CHR 0x3A,
    CHR 0x20]"

definition LINK_PREFIX :: string where
  "LINK_PREFIX = [
    CHR 0x0A, CHR 0xD8, CHR 0xB1, CHR 0xD8, CHR 0xA7, CHR 0xD8, CHR 0xA8, CHR 0xD8,
    CHR 0xB7, CHR 0x20, CHR 0xD9, CHR 0x8A, CHR 0xD9, CHR 0x88, CHR 0xD8, CHR 0xAA,
    CHR 0xD9, CHR 0x8A, CHR 0xD9, CHR 0x88, CHR 0xD8, CHR 0xA8, CHR 0x20, CHR 0xD9,
    CHR 0x85, CHR 0xD9, CHR 0x85, CHR 0xD9, CHR 0x83, CHR 0xD9, CHR 0x86, CHR 0x3A,
    CHR 0x20]"


subsection \<open>The response formatter\<close>

text \<open>
  The link expression of the inner loop,
  \<open>p.get('actions', [{}])[0].get('uri', '')\<close>, evaluated left to right.
\<close>

definition first_action_uri :: "pyval \<Rightarrow> exn + pyval" where
  "first_action_uri p =
     (case py_get_default p ''actions'' (PList [PDict []]) of
        Inl e \<Rightarrow> Inl e
      | Inr actions \<Rightarrow>
          (case py_index0 actions of
             Inl e \<Rightarrow> Inl e
           | Inr a \<Rightarrow> py_get_default a ''uri'' (PStr [])))"

text \<open>
  The inner loop \<open>for p in providers\<close>. Its result is the value of \<open>more\<close> when the loop
  is left: the link line of the first provider of type \<open>youtube\<close> (the loop breaks there),
  the empty string when there is none.
\<close>

fun scan_providers :: "(pyval \<Rightarrow> string) \<Rightarrow> pyval list \<Rightarrow> exn + string" where
  "scan_providers bs [] = Inr []"
| "scan_providers bs (p # ps) =
     (case py_get p ''type'' of
        Inl e \<Rightarrow> Inl e
      | Inr t \<Rightarrow>
          if t = PStr ''youtube'' then
            (case first_action_uri p of
               Inl e \<Rightarrow> Inl e
             | Inr uri \<Rightarrow> Inr (LINK_PREFIX @ py_format bs uri))
          else scan_providers bs ps)"

text \<open>
  The outer loop \<open>for sec in sections\<close>, entered with \<open>more\<close> empty. A section whose hub is
  falsy or not a dictionary is passed over; the loop breaks as soon as \<open>more\<close> is not
  empty.
\<close>

fun scan_sections :: "(pyval \<Rightarrow> string) \<Rightarrow> pyval list \<Rightarrow> exn + string" where
  "scan_sections bs [] = Inr []"
| "scan_sections bs (sec # rest) =
     (case py_get sec ''hub'' of
        Inl e \<Rightarrow> Inl e
      | Inr hub \<Rightarrow>
          if truthy hub \<and> is_dict hub then
            (case py_get hub ''providers'' of
               Inl e \<Rightarrow> Inl e
             | Inr pv \<Rightarrow>
                 (case py_iter (py_or pv (PList [])) of
                    Inl e \<Rightarrow> Inl e
                  | Inr providers \<Rightarrow>
                      (case scan_providers bs providers of
                         Inl e \<Rightarrow> Inl e
                       | Inr more \<Rightarrow>
                           if more \<noteq> [] then Inr more else scan_sections bs rest)))
          else scan_sections bs rest)"

text \<open>
  \<open>more\<close> after the statement \<open>if isinstance(sections, list) and sections: ...\<close>.
\<close>

definition link_line :: "(pyval \<Rightarrow> string) \<Rightarrow> pyval \<Rightarrow> exn + string" where
  "link_line bs sections =
     (if is_list sections \<and> truthy sections then
        (case py_iter sections of
           Inl e \<Rightarrow> Inl e
         | Inr secs \<Rightarrow> scan_sections bs secs)
      else Inr [])"

text \<open>
  The branch \<open>if track:\<close> of the handler up to the reply text: title and subtitle with
  their placeholder, the scan of the sections, and the f-string.
\<close>

definition format_track :: "(pyval \<Rightarrow> string) \<Rightarrow> pyval \<Rightarrow> exn + string" where
  "format_track bs track =
     (case py_get track ''title'' of
        Inl e \<Rightarrow> Inl e
      | Inr t \<Rightarrow>
          (case py_get track ''subtitle'' of
             Inl e \<Rightarrow> Inl e
           | Inr s \<Rightarrow>
               (case py_get track ''sections'' of
                  Inl e \<Rightarrow> Inl e
                | Inr sections \<Rightarrow>
                    (case link_line bs sections of
                       Inl e \<Rightarrow> Inl e
                     | Inr more \<Rightarrow>
                         Inr (REPLY_HEAD @ py_format bs (py_or t (PStr ''---''))
                              @ REPLY_MID @ py_format bs (py_or s (PStr ''---''))
                              @ more)))))"

text \<open>\<open>track = result.get("track") if isinstance(result, dict) else None\<close>.\<close>

definition track_of :: "pyval \<Rightarrow> pyval" where
  "track_of result =
     (case result of
        PDict kvs \<Rightarrow> (case map_of kvs ''track'' of None \<Rightarrow> PNone | Some v \<Rightarrow> v)
      | _ \<Rightarrow> PNone)"


subsection \<open>Messages\<close>

text \<open>
  What the handler reads of an update: the message, its five attachment fields, and of an
  attachment the unique id, the file name the sender gave (read for audio files and
  documents only) and the id under which the transport fetches the file. An attachment
  object is truthy whenever it is there.
\<close>

record attachment =
  file_id :: string
  file_unique_id :: string
  file_name :: "string option"

record message =
  voice :: "attachment option"
  audio :: "attachment option"
  video :: "attachment option"
  document :: "attachment option"
  video_note :: "attachment option"

record update =
  message :: "message option"

datatype kind = Voice | Audio | Video | Document | VideoNote

text \<open>\<open>a.file_name or fallback\<close>: the fallback replaces a missing and an empty name.\<close>

definition name_or :: "string option \<Rightarrow> string \<Rightarrow> string" where
  "name_or n fallback = (case n of None \<Rightarrow> fallback | Some s \<Rightarrow> if s = [] then fallback else s)"

text \<open>
  The chain \<open>if msg.voice: ... elif msg.audio: ... else:\<close> of the handler: the attachment
  it goes on with, its kind and the file name hint, or \<open>None\<close> for the \<open>else\<close> branch.
\<close>

definition resolve_attachment :: "message \<Rightarrow> (kind \<times> attachment \<times> string) option" where
  "resolve_attachment msg =
     (case voice msg of
        Some a \<Rightarrow> Some (Voice, a, ''voice_'' @ file_unique_id a @ ''.ogg'')
      | None \<Rightarrow>
     (case audio msg of
        Some a \<Rightarrow> Some (Audio, a, name_or (file_name a) (''audio_'' @ file_unique_id a))
      | None \<Rightarrow>
     (case video msg of
        Some a \<Rightarrow> Some (Video, a, ''video_'' @ file_unique_id a @ ''.mp4'')
      | None \<Rightarrow>
     (case document msg of
        Some a \<Rightarrow> Some (Document, a, name_or (file_name a) (''doc_'' @ file_unique_id a))
      | None \<Rightarrow>
     (case video_note msg of
        Some a \<Rightarrow> Some (VideoNote, a, ''vnote_'' @ file_unique_id a @ ''.mp4'')
      | None \<Rightarrow> None)))))"

subsection \<open>The outside world\<close>

text \<open>
  The file system maps a path to what is there. The paths it is asked about are the
  temporary directory and \<open>converted.wav\<close> inside it.
\<close>

datatype node = File string | Dir

type_synonym filesystem = "string \<Rightarrow> node option"

text \<open>Every call that leaves the program, in the order the handler makes them.\<close>

datatype event =
    GetFile kind attachment
  | ReplyText string
  | ChatAction string
  | MkDTemp string
  | Download string string
  | Ffmpeg "string list"
  | NewShazam
  | ReadFile string
  | Recognize string
  | Print string exn
  | Cleanup string

record world =
  fs :: filesystem
  trace :: "event list"

text \<open>
  The outcome of each call, chosen by the environment: whether \<open>get_file\<close> returns a file
  object, whether the transport accepts a reply or a chat action, the name of the new
  temporary directory, what the download and the subprocess leave in the file system and
  whether they raise (for the subprocess: an exception from starting or awaiting it, or
  its exit status), whether constructing the recogniser raises, what the recognition
  engine returns or raises, and the built-in \<open>str\<close> on values that are not strings.
\<close>

record env =
  get_file_out :: "attachment \<Rightarrow> exn + string"
  send_out :: "event \<Rightarrow> exn option"
  mkdtemp_out :: "filesystem \<Rightarrow> exn + string"
  download_out :: "string \<Rightarrow> string \<Rightarrow> filesystem \<Rightarrow> exn option \<times> filesystem"
  ffmpeg_out :: "string list \<Rightarrow> filesystem \<Rightarrow> (exn + int) \<times> filesystem"
  shazam_out :: "exn option"
  recognize_out :: "string \<Rightarrow> exn + pyval"
  builtin_str :: "pyval \<Rightarrow> string"

definition emit :: "event \<Rightarrow> world \<Rightarrow> world" where
  "emit ev w = w\<lparr>trace := trace w @ [ev]\<rparr>"

definition reply_text :: "env \<Rightarrow> string \<Rightarrow> world \<Rightarrow> exn option \<times> world" where
  "reply_text E txt w = (send_out E (ReplyText txt), emit (ReplyText txt) w)"

definition reply_chat_action :: "env \<Rightarrow> string \<Rightarrow> world \<Rightarrow> exn option \<times> world" where
  "reply_chat_action E a w = (send_out E (ChatAction a), emit (ChatAction a) w)"

text \<open>
  Paths, as \<open>pathlib\<close> treats them on POSIX. \<open>s.split('/')\<close>; the root of a path (two
  leading slashes are kept, one or more than two are one); its parts, without the empty
  ones and without \<open>.\<close>; and \<open>str(Path(s))\<close>.
\<close>

fun split_slash :: "string \<Rightarrow> string list" where
  "split_slash [] = [[]]"
| "split_slash (c # cs) =
     (if c = CHR ''/'' then [] # split_slash cs
      else (case split_slash cs of [] \<Rightarrow> [[c]] | g # gs \<Rightarrow> (c # g) # gs))"

fun join_slash :: "string list \<Rightarrow> string" where
  "join_slash [] = []"
| "join_slash [p] = p"
| "join_slash (p # q # ps) = p @ ''/'' @ join_slash (q # ps)"

definition path_root :: "string \<Rightarrow> string" where
  "path_root s =
     (if take 1 s \<noteq> ''/'' then []
      else if take 1 (drop 1 s) \<noteq> ''/'' \<or> take 1 (drop 2 s) = ''/'' then ''/''
      else ''//'')"

definition path_parts :: "string \<Rightarrow> string list" where
  "path_parts s = filter (\<lambda>x. x \<noteq> [] \<and> x \<noteq> ''.'') (split_slash s)"

definition path_str :: "string \<Rightarrow> string" where
  "path_str s =
     (if path_root s = [] \<and> path_parts s = [] then ''.''
      else path_root s @ join_slash (path_parts s))"

text \<open>
  \<open>str(Path(d) / n)\<close>: an absolute right operand replaces the left one, otherwise the two
  are joined with one slash; the result is parsed as a path again.
\<close>

definition posix_join :: "string \<Rightarrow> string \<Rightarrow> string" where
  "posix_join a b =
     (if take 1 b = ''/'' then b
      else if a = [] \<or> take 1 (rev a) = ''/'' then a @ b
      else a @ ''/'' @ b)"

definition path_join :: "string \<Rightarrow> string \<Rightarrow> string" where
  "path_join d n = path_str (posix_join d n)"

text \<open>\<open>p.exists()\<close>, and \<open>open(p, "rb")\<close> followed by \<open>read()\<close>.\<close>

definition exists :: "filesystem \<Rightarrow> string \<Rightarrow> bool" where
  "exists f p = (f p \<noteq> None)"

definition read_bytes :: "filesystem \<Rightarrow> string \<Rightarrow> exn + string" where
  "read_bytes f p =
     (case f p of
        None \<Rightarrow> Inl FileNotFoundError
      | Some Dir \<Rightarrow> Inl IsADirectoryError
      | Some (File b) \<Rightarrow> Inr b)"

text \<open>
  Leaving \<open>with tempfile.TemporaryDirectory()\<close> removes the directory and all that is
  below it.
\<close>

definition rmtree :: "string \<Rightarrow> filesystem \<Rightarrow> filesystem" where
  "rmtree d f = (\<lambda>p. if p = d \<or> prefix (d @ ''/'') p then None else f p)"


subsection \<open>The two helpers\<close>

definition ffmpeg_cmd :: "string \<Rightarrow> string \<Rightarrow> string list" where
  "ffmpeg_cmd input_path output_path =
     [''ffmpeg'', ''-y'', ''-i'', input_path, ''-ar'', ''44100'', ''-ac'', ''2'', ''-vn'',
      output_path]"

text \<open>
  \<open>convert_to_wav\<close>: the subprocess is started and awaited inside \<open>try\<close>; what is
  returned is \<open>output_path.exists()\<close>. The clause \<open>except Exception\<close> prints and returns
  \<open>False\<close>; an exception it does not catch leaves the function.
\<close>

definition convert_to_wav ::
  "env \<Rightarrow> string \<Rightarrow> string \<Rightarrow> world \<Rightarrow> (exn + bool) \<times> world" where
  "convert_to_wav E input_path output_path w =
     (case ffmpeg_out E (ffmpeg_cmd input_path output_path) (fs w) of
        (r, f') \<Rightarrow>
          (let w' = emit (Ffmpeg (ffmpeg_cmd input_path output_path)) (w\<lparr>fs := f'\<rparr>) in
           case r of
             Inr status \<Rightarrow> (Inr (exists f' output_path), w')
           | Inl e \<Rightarrow>
               if is_exception e then
                 (Inr False, emit (Print ''ffmpeg conversion failed:'' e) w')
               else (Inl e, w')))"

text \<open>
  \<open>recognize_with_shazam\<close>: the recogniser is constructed and the file is opened and read
  before the \<open>try\<close>; the engine is called inside it. The clause \<open>except Exception\<close> prints
  and returns \<open>{}\<close>; an exception it does not catch, and any exception from before the
  \<open>try\<close>, leaves the function.
\<close>

definition recognize_with_shazam :: "env \<Rightarrow> string \<Rightarrow> world \<Rightarrow> (exn + pyval) \<times> world" where
  "recognize_with_shazam E wav_path w =
     (let w0 = emit NewShazam w in
      case shazam_out E of
        Some e \<Rightarrow> (Inl e, w0)
      | None \<Rightarrow>
          (let w1 = emit (ReadFile wav_path) w0 in
           case read_bytes (fs w) wav_path of
             Inl e \<Rightarrow> (Inl e, w1)
           | Inr audio_bytes \<Rightarrow>
               (let w2 = emit (Recognize audio_bytes) w1 in
                case recognize_out E audio_bytes of
                  Inr out \<Rightarrow> (Inr out, w2)
                | Inl e \<Rightarrow>
                    if is_exception e then
                      (Inr (PDict []), emit (Print ''shazam recognition error:'' e) w2)
                    else (Inl e, w2))))"

subsection \<open>The handler\<close>

text \<open>
  A run of the handler ends with \<open>None\<close> when it returns and with \<open>Some e\<close> when the
  exception \<open>e\<close> leaves it.

  The last stage, from \<open>if track:\<close> to the end: the reply is formatted and sent, or the
  no-match text is sent.
\<close>

definition respond :: "env \<Rightarrow> pyval \<Rightarrow> world \<Rightarrow> exn option \<times> world" where
  "respond E track w =
     (if truthy track then
        (case format_track (builtin_str E) track of
           Inl e \<Rightarrow> (Some e, w)
         | Inr reply \<Rightarrow> reply_text E reply w)
      else reply_text E MSG_NO_MATCH w)"

text \<open>
  The body of the \<open>with\<close> block, for the file object and the name hint of the attachment
  and the temporary directory \<open>d\<close>. The download stands in a \<open>try\<close> with the clause
  \<open>except Exception\<close>.
\<close>

definition process_in_tmpdir ::
  "env \<Rightarrow> string \<Rightarrow> string \<Rightarrow> string \<Rightarrow> world \<Rightarrow> exn option \<times> world" where
  "process_in_tmpdir E file_obj file_name_hint d w =
     (let in_path = path_join d file_name_hint;
          out_wav = path_join d ''converted.wav''
      in
      case download_out E file_obj in_path (fs w) of
        (dr, f1) \<Rightarrow>
          (let w1 = emit (Download file_obj in_path) (w\<lparr>fs := f1\<rparr>) in
           case dr of
             Some e \<Rightarrow>
               if is_exception e then
                 (case reply_text E MSG_DOWNLOAD_ERROR w1 of
                    (Some e', w2) \<Rightarrow> (Some e', w2)
                  | (None, w2) \<Rightarrow> (None, emit (Print ''download error:'' e) w2))
               else (Some e, w1)
           | None \<Rightarrow>
               (case convert_to_wav E in_path out_wav w1 of
                  (Inl e, w2) \<Rightarrow> (Some e, w2)
                | (Inr ok, w2) \<Rightarrow>
                    if \<not> ok then reply_text E MSG_UNSUPPORTED w2
                    else
                      (case recognize_with_shazam E out_wav w2 of
                         (Inl e, w3) \<Rightarrow> (Some e, w3)
                       | (Inr result, w3) \<Rightarrow> respond E (track_of result) w3))))"

text \<open>
  \<open>with tempfile.TemporaryDirectory() as tmpdir\<close>: the directory is created, the body
  runs, and the directory is removed however the body ends; an exception of the body goes
  on after the removal.
\<close>

definition with_tmpdir ::
  "env \<Rightarrow> (string \<Rightarrow> world \<Rightarrow> exn option \<times> world) \<Rightarrow> world \<Rightarrow> exn option \<times> world" where
  "with_tmpdir E body w =
     (case mkdtemp_out E (fs w) of
        Inl e \<Rightarrow> (Some e, w)
      | Inr d \<Rightarrow>
          (case body d (emit (MkDTemp d) (w\<lparr>fs := (fs w)(d \<mapsto> Dir)\<rparr>)) of
             (r, w2) \<Rightarrow> (r, emit (Cleanup d) (w2\<lparr>fs := rmtree d (fs w2)\<rparr>))))"

definition handle_msg :: "env \<Rightarrow> update \<Rightarrow> world \<Rightarrow> exn option \<times> world" where
  "handle_msg E upd w =
     (case message upd of
        None \<Rightarrow> (None, w)
      | Some msg \<Rightarrow>
          (case resolve_attachment msg of
             None \<Rightarrow> reply_text E MSG_PROMPT w
           | Some (k, a, file_name_hint) \<Rightarrow>
               (let w1 = emit (GetFile k a) w in
                case get_file_out E a of
                  Inl e \<Rightarrow> (Some e, w1)
                | Inr file_obj \<Rightarrow>
                    (case reply_chat_action E ''typing'' w1 of
                       (Some e, w2) \<Rightarrow> (Some e, w2)
                     | (None, w2) \<Rightarrow>
                         with_tmpdir E (process_in_tmpdir E file_obj file_name_hint) w2))))"


subsection \<open>Vocabulary of the properties\<close>

text \<open>
  The attachment fields by kind and the order in which the specification ranks them; these two
  are written from its words, not from the handler, and are compared with the handler below.
\<close>

fun attachment_field :: "kind \<Rightarrow> message \<Rightarrow> attachment option" where
  "attachment_field Voice msg = voice msg"
| "attachment_field Audio msg = audio msg"
| "attachment_field Video msg = video msg"
| "attachment_field Document msg = document msg"
| "attachment_field VideoNote msg = video_note msg"

definition priority :: "kind list" where
  "priority = [Voice, Audio, Video, Document, VideoNote]"

fun is_get_file :: "event \<Rightarrow> bool" where
  "is_get_file (GetFile k a) = True"
| "is_get_file ev = False"

text \<open>The events of the stages inside the temporary directory and of the replies.\<close>

fun stage_event :: "event \<Rightarrow> bool" where
  "stage_event (GetFile k a) = False"
| "stage_event (MkDTemp d) = False"
| "stage_event (Cleanup d) = False"
| "stage_event ev = True"

text \<open>
  A provider that is a dictionary of another type than \<open>youtube\<close>, and a section that is
  a dictionary in which the scan finds no link: its hub is falsy or no dictionary, or the
  hub's providers are falsy or a list of such providers.
\<close>

fun plain_provider :: "pyval \<Rightarrow> bool" where
  "plain_provider (PDict kvs) = (map_of kvs ''type'' \<noteq> Some (PStr ''youtube''))"
| "plain_provider v = False"

fun plain_providers :: "pyval \<Rightarrow> bool" where
  "plain_providers (PList ps) = list_all plain_provider ps"
| "plain_providers v = (\<not> truthy v)"

fun plain_hub :: "pyval \<Rightarrow> bool" where
  "plain_hub (PDict kvs) =
     (kvs = [] \<or> plain_providers (case map_of kvs ''providers'' of None \<Rightarrow> PNone | Some v \<Rightarrow> v))"
| "plain_hub v = True"

fun plain_section :: "pyval \<Rightarrow> bool" where
  "plain_section (PDict kvs) = plain_hub (case map_of kvs ''hub'' of None \<Rightarrow> PNone | Some v \<Rightarrow> v)"
| "plain_section v = False"

subsection \<open>Sample runs\<close>

text \<open>
  An environment in which the transport always answers and the temporary directory is
  \<open>/tmp/tmpq0\<close>; the download raises \<open>dl\<close> or writes the file, the subprocess ends with
  \<open>st\<close> and leaves \<open>made\<close> at its output path, the engine answers \<open>rc\<close>.
\<close>

definition stub_env :: "exn option \<Rightarrow> (exn + int) \<Rightarrow> node option \<Rightarrow> (exn + pyval) \<Rightarrow> env" where
  "stub_env dl st made rc =
     \<lparr>get_file_out = (\<lambda>a. Inr (file_id a)),
      send_out = (\<lambda>ev. None),
      mkdtemp_out = (\<lambda>f. Inr ''/tmp/tmpq0''),
      download_out = (\<lambda>fid p f. (dl, if dl = None then f(p \<mapsto> File ''raw'') else f)),
      ffmpeg_out = (\<lambda>cmd f. (st, f(last cmd := made))),
      shazam_out = None,
      recognize_out = (\<lambda>b. rc),
      builtin_str = (\<lambda>v. ''?'')\<rparr>"

definition idle :: world where
  "idle = \<lparr>fs = Map.empty, trace = []\<rparr>"

definition clip :: attachment where
  "clip = \<lparr>file_id = ''f1'', file_unique_id = ''u1'', file_name = None\<rparr>"

definition song :: attachment where
  "song = \<lparr>file_id = ''f2'', file_unique_id = ''u2'', file_name = Some ''a.mp3''\<rparr>"

definition no_attachment :: message where
  "no_attachment =
     \<lparr>voice = None, audio = None, video = None, document = None, video_note = None\<rparr>"

definition voice_request :: update where
  "voice_request = \<lparr>message = Some (no_attachment\<lparr>voice := Some clip\<rparr>)\<rparr>"


section \<open>Properties\<close>

subsection \<open>What each stage adds to the trace\<close>

lemma reply_text_trace: "trace (snd (reply_text E t w)) = trace w @ [ReplyText t]"
  by (simp add: reply_text_def emit_def)

lemma respond_adds:
  "\<exists>evs. trace (snd (respond E track w)) = trace w @ evs \<and> list_all stage_event evs"
  by (simp add: respond_def reply_text_def emit_def split: sum.splits)

lemma convert_adds:
  "\<exists>evs. trace (snd (convert_to_wav E i out w)) = trace w @ evs \<and> list_all stage_event evs"
  by (simp add: convert_to_wav_def Let_def emit_def split: prod.splits sum.splits)

lemma recognize_adds:
  "\<exists>evs. trace (snd (recognize_with_shazam E p w)) = trace w @ evs \<and> list_all stage_event evs"
  by (simp add: recognize_with_shazam_def Let_def emit_def
      split: prod.splits sum.splits option.splits)

lemma process_adds:
  "\<exists>evs. trace (snd (process_in_tmpdir E fo h d w)) = trace w @ evs \<and> list_all stage_event evs"
proof -
  let ?i = "path_join d h" and ?o = "path_join d ''converted.wav''"
  obtain dr f1 where dl: "download_out E fo ?i (fs w) = (dr, f1)"
    by (cases "download_out E fo ?i (fs w)")
  let ?w1 = "emit (Download fo ?i) (w\<lparr>fs := f1\<rparr>)"
  have w1: "trace ?w1 = trace w @ [Download fo ?i]"
    by (simp add: emit_def)
  show ?thesis
  proof (cases dr)
    case (Some e)
    then show ?thesis using dl
      by (simp add: process_in_tmpdir_def Let_def reply_text_def emit_def split: option.splits)
  next
    case None
    obtain c w2 where cv: "convert_to_wav E ?i ?o ?w1 = (c, w2)"
      by (cases "convert_to_wav E ?i ?o ?w1")
    obtain e2 where w2: "trace w2 = trace ?w1 @ e2" "list_all stage_event e2"
      using convert_adds [of E ?i ?o ?w1] cv by auto
    obtain r w3 where rc: "recognize_with_shazam E ?o w2 = (r, w3)"
      by (cases "recognize_with_shazam E ?o w2")
    obtain e3 where w3: "trace w3 = trace w2 @ e3" "list_all stage_event e3"
      using recognize_adds [of E ?o w2] rc by auto
    show ?thesis
    proof (cases c)
      case (Inl e)
      then show ?thesis using None dl cv w1 w2
        by (simp add: process_in_tmpdir_def Let_def)
    next
      case ok: (Inr ok)
      show ?thesis
      proof (cases ok)
        case False
        then show ?thesis using ok None dl cv w1 w2
          by (simp add: process_in_tmpdir_def Let_def reply_text_trace)
      next
        case True
        show ?thesis
        proof (cases r)
          case (Inl e)
          then show ?thesis using True ok None dl cv rc w1 w2 w3
            by (simp add: process_in_tmpdir_def Let_def)
        next
          case (Inr result)
          obtain e4 where w4: "trace (snd (respond E (track_of result) w3)) = trace w3 @ e4"
              "list_all stage_event e4"
            using respond_adds [of E "track_of result" w3] by auto
          show ?thesis using Inr True ok None dl cv rc w1 w2 w3 w4
            by (simp add: process_in_tmpdir_def Let_def)
        qed
      qed
    qed
  qed
qed

lemma with_tmpdir_unfold:
  assumes "mkdtemp_out E (fs w) = Inr d"
  shows "with_tmpdir E body w =
           (fst (body d (emit (MkDTemp d) (w\<lparr>fs := (fs w)(d \<mapsto> Dir)\<rparr>))),
            emit (Cleanup d)
              ((snd (body d (emit (MkDTemp d) (w\<lparr>fs := (fs w)(d \<mapsto> Dir)\<rparr>))))
                 \<lparr>fs := rmtree d (fs (snd (body d (emit (MkDTemp d) (w\<lparr>fs := (fs w)(d \<mapsto> Dir)\<rparr>)))))\<rparr>))"
  using assms by (simp add: with_tmpdir_def split: prod.splits)

lemma handle_msg_enters:
  assumes "message upd = Some msg" and "resolve_attachment msg = Some (k, a, h)"
    and "get_file_out E a = Inr fo" and "send_out E (ChatAction ''typing'') = None"
  shows "handle_msg E upd w =
           with_tmpdir E (process_in_tmpdir E fo h)
             (w\<lparr>trace := trace w @ [GetFile k a, ChatAction ''typing'']\<rparr>)"
  using assms by (simp add: handle_msg_def Let_def reply_chat_action_def emit_def)

lemma resolve_first_populated:
  "map_option fst (resolve_attachment msg) = find (\<lambda>k. attachment_field k msg \<noteq> None) priority"
  by (auto simp: resolve_attachment_def priority_def split: option.splits)

lemma resolve_field:
  "resolve_attachment msg = Some (k, a, h) \<Longrightarrow> attachment_field k msg = Some a"
  by (auto simp: resolve_attachment_def split: option.splits)

lemma stage_events_no_get_file:
  "list_all stage_event evs \<Longrightarrow> filter is_get_file evs = []"
proof (induction evs)
  case Nil
  show ?case by simp
next
  case (Cons ev evs)
  then show ?case by (cases ev) simp_all
qed


lemma sample_paths:
  "path_join ''/tmp/tmpq0'' ''voice_u1.ogg'' = ''/tmp/tmpq0/voice_u1.ogg''"
  "path_join ''/tmp/tmpq0'' ''converted.wav'' = ''/tmp/tmpq0/converted.wav''"
  by (simp_all add: path_join_def posix_join_def path_str_def path_root_def path_parts_def)


subsection \<open>Updates without a message, messages without an attachment\<close>

text \<open>
  C10. An update whose message field is absent: the handler returns at once. The world is
  the one it was called in, so no reply, no typing indicator and no pipeline stage
  happened.
\<close>

theorem handle_msg_without_message:
  "message upd = None \<Longrightarrow> handle_msg E upd w = (None, w)"
  by (simp add: handle_msg_def)

theorem handle_msg_without_message_witness:
  "message \<lparr>message = None\<rparr> = None \<and>
   handle_msg (stub_env None (Inr 0) None (Inr PNone)) \<lparr>message = None\<rparr> idle = (None, idle)"
  using handle_msg_without_message
    [of "\<lparr>message = None\<rparr>" "stub_env None (Inr 0) None (Inr PNone)" idle]
  by simp

text \<open>
  C6. A message in which none of the five attachment fields is set: the handler sends the
  usage prompt and that is the only thing it does. The trace grows by this one reply,
  the file system is untouched, and the handler ends the way the sending of the reply
  ends.
\<close>

theorem handle_msg_without_attachment:
  assumes "message upd = Some msg"
    and "voice msg = None" and "audio msg = None" and "video msg = None"
    and "document msg = None" and "video_note msg = None"
  shows "handle_msg E upd w =
           (send_out E (ReplyText MSG_PROMPT), w\<lparr>trace := trace w @ [ReplyText MSG_PROMPT]\<rparr>)"
  using assms by (simp add: handle_msg_def resolve_attachment_def reply_text_def emit_def)

theorem handle_msg_without_attachment_witness:
  "handle_msg (stub_env None (Inr 0) None (Inr PNone)) \<lparr>message = Some no_attachment\<rparr> idle =
     (None, \<lparr>fs = Map.empty, trace = [ReplyText MSG_PROMPT]\<rparr>)"
  using handle_msg_without_attachment
    [of "\<lparr>message = Some no_attachment\<rparr>" no_attachment
        "stub_env None (Inr 0) None (Inr PNone)" idle]
  by (simp add: no_attachment_def idle_def stub_env_def)

subsection \<open>The attachment resolver\<close>

text \<open>
  C4. The attachment the handler goes on with is of the first kind, in the order voice,
  audio, video, document, video note, whose field is populated, whatever the later fields
  hold; and over a whole run the handler asks the transport for exactly one file, the one
  of that attachment (for none when no field is populated).
\<close>

theorem attachment_priority:
  "find (\<lambda>k. attachment_field k msg \<noteq> None) priority = map_option fst (resolve_attachment msg) \<and>
   (message upd = Some msg \<longrightarrow>
      filter is_get_file (trace (snd (handle_msg E upd w))) =
        filter is_get_file (trace w) @
          (case find (\<lambda>k. attachment_field k msg \<noteq> None) priority of
             None \<Rightarrow> []
           | Some k \<Rightarrow> (case attachment_field k msg of None \<Rightarrow> [] | Some a \<Rightarrow> [GetFile k a])))"
proof -
  have first:
    "find (\<lambda>k. attachment_field k msg \<noteq> None) priority = map_option fst (resolve_attachment msg)"
    by (simp add: resolve_first_populated)
  have second: "filter is_get_file (trace (snd (handle_msg E upd w))) =
        filter is_get_file (trace w) @
          (case find (\<lambda>k. attachment_field k msg \<noteq> None) priority of
             None \<Rightarrow> []
           | Some k \<Rightarrow> (case attachment_field k msg of None \<Rightarrow> [] | Some a \<Rightarrow> [GetFile k a]))"
    if m: "message upd = Some msg"
  proof (cases "resolve_attachment msg")
    case None
    then show ?thesis using m first
      by (simp add: handle_msg_def reply_text_def emit_def)
  next
    case (Some r)
    obtain k a h where r: "r = (k, a, h)" by (cases r)
    have fld: "attachment_field k msg = Some a"
      using Some r resolve_field by simp
    have inside: "filter is_get_file (trace (snd (with_tmpdir E (process_in_tmpdir E fo h) w'))) =
        filter is_get_file (trace w')" for fo w'
    proof (cases "mkdtemp_out E (fs w')")
      case (Inl e)
      then show ?thesis by (simp add: with_tmpdir_def)
    next
      case (Inr d)
      let ?w1 = "emit (MkDTemp d) (w'\<lparr>fs := (fs w')(d \<mapsto> Dir)\<rparr>)"
      obtain evs where evs: "trace (snd (process_in_tmpdir E fo h d ?w1)) = trace ?w1 @ evs"
          "list_all stage_event evs"
        using process_adds [of E fo h d ?w1] by auto
      show ?thesis
        using evs stage_events_no_get_file [OF evs(2)]
        by (simp add: with_tmpdir_unfold [OF Inr] emit_def)
    qed
    show ?thesis using m first Some r fld inside
      by (simp add: handle_msg_def Let_def reply_chat_action_def emit_def
          split: sum.splits option.splits)
  qed
  from first second show ?thesis by blast
qed

theorem attachment_priority_witness:
  "filter is_get_file (trace (snd (handle_msg (stub_env None (Inr 0) None (Inr PNone))
       \<lparr>message = Some \<lparr>voice = None, audio = Some song, video = Some clip, document = None,
           video_note = Some clip\<rparr>\<rparr> idle))) = [GetFile Audio song]"
  using attachment_priority
    [of "\<lparr>voice = None, audio = Some song, video = Some clip, document = None,
           video_note = Some clip\<rparr>"
        "\<lparr>message = Some \<lparr>voice = None, audio = Some song, video = Some clip, document = None,
           video_note = Some clip\<rparr>\<rparr>" "stub_env None (Inr 0) None (Inr PNone)" idle]
  by (simp add: priority_def idle_def)

subsection \<open>The transcode stage\<close>




subsection \<open>The download stage\<close>

text \<open>
  C7, as amended. A request that reaches the download (the attachment is resolved, the
  transport hands out the file object and accepts the typing indicator, the temporary
  directory is created) and whose download raises \<open>e\<close>. When \<open>e\<close> is an instance of
  \<open>Exception\<close>, the handler sends the download error text, prints the exception unless
  sending raised, and ends the way the sending of the reply ends. When it is not, \<open>e\<close>
  leaves the handler and no reply is sent. In both cases the trace is exactly the one
  given, so neither the conversion nor the recognition ran.
\<close>

theorem download_failure_aborts:
  assumes "message upd = Some msg" and "resolve_attachment msg = Some (k, a, h)"
    and "get_file_out E a = Inr fo" and "send_out E (ChatAction ''typing'') = None"
    and "mkdtemp_out E (fs w) = Inr d"
    and "download_out E fo (path_join d h) ((fs w)(d \<mapsto> Dir)) = (Some e, f1)"
  shows "fst (handle_msg E upd w) =
           (if is_exception e then send_out E (ReplyText MSG_DOWNLOAD_ERROR) else Some e) \<and>
         trace (snd (handle_msg E upd w)) =
           trace w @ [GetFile k a, ChatAction ''typing'', MkDTemp d, Download fo (path_join d h)]
             @ (if is_exception e then
                  ReplyText MSG_DOWNLOAD_ERROR
                    # (case send_out E (ReplyText MSG_DOWNLOAD_ERROR) of
                         None \<Rightarrow> [Print ''download error:'' e]
                       | Some e' \<Rightarrow> [])
                else [])
             @ [Cleanup d]"
proof -
  let ?w0 = "w\<lparr>trace := trace w @ [GetFile k a, ChatAction ''typing'']\<rparr>"
  have mk: "mkdtemp_out E (fs ?w0) = Inr d"
    using assms(5) by simp
  have body: "process_in_tmpdir E fo h d (emit (MkDTemp d) (?w0\<lparr>fs := (fs ?w0)(d \<mapsto> Dir)\<rparr>)) =
      ((if is_exception e then send_out E (ReplyText MSG_DOWNLOAD_ERROR) else Some e),
       \<lparr>fs = f1,
        trace = trace w @ [GetFile k a, ChatAction ''typing'', MkDTemp d,
                  Download fo (path_join d h)]
          @ (if is_exception e then
               ReplyText MSG_DOWNLOAD_ERROR
                 # (case send_out E (ReplyText MSG_DOWNLOAD_ERROR) of
                      None \<Rightarrow> [Print ''download error:'' e]
                    | Some e' \<Rightarrow> [])
             else [])\<rparr>)"
    using assms(6)
    by (simp add: process_in_tmpdir_def Let_def reply_text_def emit_def split: option.splits)
  show ?thesis
    unfolding handle_msg_enters [OF assms(1-4)] with_tmpdir_unfold [OF mk] body
    by (simp add: emit_def)
qed

theorem download_failure_aborts_witness:
  "fst (handle_msg (stub_env (Some (External ''TimedOut'')) (Inr 0) None (Inr PNone))
          voice_request idle) = None \<and>
   trace (snd (handle_msg (stub_env (Some (External ''TimedOut'')) (Inr 0) None (Inr PNone))
          voice_request idle)) =
     [GetFile Voice clip, ChatAction ''typing'', MkDTemp ''/tmp/tmpq0'',
      Download ''f1'' ''/tmp/tmpq0/voice_u1.ogg'', ReplyText MSG_DOWNLOAD_ERROR,
      Print ''download error:'' (External ''TimedOut''), Cleanup ''/tmp/tmpq0'']"
  using download_failure_aborts
    [of voice_request "no_attachment\<lparr>voice := Some clip\<rparr>" Voice clip "''voice_u1.ogg''"
        "stub_env (Some (External ''TimedOut'')) (Inr 0) None (Inr PNone)" "''f1''" idle
        "''/tmp/tmpq0''" "External ''TimedOut''" "(fs idle)(''/tmp/tmpq0'' \<mapsto> Dir)"]
  by (simp add: voice_request_def no_attachment_def resolve_attachment_def clip_def
      stub_env_def idle_def sample_paths)

text \<open>
  C7 as it was stated, with the error reply for every exception of the download, does not
  hold: when the task is cancelled during the download, the exception leaves the handler
  and no reply is sent.
\<close>

theorem download_cancellation_no_reply:
  "fst (handle_msg (stub_env (Some CancelledError) (Inr 0) None (Inr PNone)) voice_request idle) =
     Some CancelledError \<and>
   trace (snd (handle_msg (stub_env (Some CancelledError) (Inr 0) None (Inr PNone))
          voice_request idle)) =
     [GetFile Voice clip, ChatAction ''typing'', MkDTemp ''/tmp/tmpq0'',
      Download ''f1'' ''/tmp/tmpq0/voice_u1.ogg'', Cleanup ''/tmp/tmpq0'']"
  by (simp add: handle_msg_def voice_request_def no_attachment_def resolve_attachment_def
      clip_def stub_env_def idle_def Let_def reply_chat_action_def emit_def with_tmpdir_def
      process_in_tmpdir_def sample_paths)


subsection \<open>The run up to the reply\<close>

lemma process_reaches_respond:
  assumes "download_out E fo (path_join d h) (fs w) = (None, f1)"
    and "ffmpeg_out E (ffmpeg_cmd (path_join d h) (path_join d ''converted.wav'')) f1 =
           (Inr status, f2)"
    and "shazam_out E = None"
    and "f2 (path_join d ''converted.wav'') = Some (File b)"
    and "\<And>e. recognize_out E b = Inl e \<Longrightarrow> is_exception e"
  shows "process_in_tmpdir E fo h d w =
           respond E (track_of (case recognize_out E b of Inl e \<Rightarrow> PDict [] | Inr out \<Rightarrow> out))
             (w\<lparr>fs := f2,
              trace := trace w @
                [Download fo (path_join d h),
                 Ffmpeg (ffmpeg_cmd (path_join d h) (path_join d ''converted.wav'')),
                 NewShazam, ReadFile (path_join d ''converted.wav''), Recognize b]
                @ (case recognize_out E b of
                     Inl e \<Rightarrow> [Print ''shazam recognition error:'' e]
                   | Inr out \<Rightarrow> [])\<rparr>)"
  using assms
  by (simp add: process_in_tmpdir_def Let_def convert_to_wav_def exists_def emit_def
      recognize_with_shazam_def read_bytes_def split: sum.splits)

lemma respond_no_track:
  "\<not> truthy track \<Longrightarrow> respond E track w = reply_text E MSG_NO_MATCH w"
  by (simp add: respond_def)

lemma link_prefix_not_empty: "LINK_PREFIX \<noteq> []"
  by (simp add: LINK_PREFIX_def)

lemma scan_providers_skips:
  "list_all plain_provider ppre \<Longrightarrow> scan_providers bs (ppre @ ps) = scan_providers bs ps"
proof (induction ppre)
  case Nil
  show ?case by simp
next
  case (Cons p ppre)
  then show ?case by (cases p) (auto simp: py_get_def split: option.splits)
qed

lemma scan_providers_plain:
  "list_all plain_provider ps \<Longrightarrow> scan_providers bs ps = Inr []"
  using scan_providers_skips [of ps bs "[]"] by simp

lemma scan_providers_hit:
  assumes "map_of p ''type'' = Some (PStr ''youtube'')"
    and "map_of p ''actions'' = Some (PList (PDict act # acts))"
    and "map_of act ''uri'' = Some (PStr U)"
  shows "scan_providers bs (PDict p # ppost) = Inr (LINK_PREFIX @ U)"
  using assms by (simp add: py_get_def first_action_uri_def py_format_def)

lemma plain_section_passed:
  "plain_section sec \<Longrightarrow> scan_sections bs (sec # rest) = scan_sections bs rest"
proof (cases sec)
  case (PDict kvs)
  assume ps: "plain_section sec"
  show ?thesis
  proof (cases "case map_of kvs ''hub'' of None \<Rightarrow> PNone | Some v \<Rightarrow> v")
    case (PDict hub)
    show ?thesis
    proof (cases "hub = []")
      case True
      then show ?thesis using \<open>sec = PDict kvs\<close> PDict by (simp add: py_get_def)
    next
      case False
      have pp: "plain_providers (case map_of hub ''providers'' of None \<Rightarrow> PNone | Some v \<Rightarrow> v)"
        using ps \<open>sec = PDict kvs\<close> PDict False by simp
      show ?thesis
      proof (cases "case map_of hub ''providers'' of None \<Rightarrow> PNone | Some v \<Rightarrow> v")
        case (PList ps)
        then show ?thesis using pp \<open>sec = PDict kvs\<close> PDict False
          by (cases "ps = []") (simp_all add: py_get_def py_or_def scan_providers_plain)
      qed (use pp \<open>sec = PDict kvs\<close> PDict False in \<open>simp_all add: py_get_def py_or_def\<close>)
    qed
  qed (use \<open>sec = PDict kvs\<close> in \<open>simp_all add: py_get_def\<close>)
qed simp_all

lemma scan_sections_skips:
  "list_all plain_section pre \<Longrightarrow> scan_sections bs (pre @ rest) = scan_sections bs rest"
proof (induction pre)
  case Nil
  show ?case by simp
next
  case (Cons sec pre)
  then show ?case using plain_section_passed [of sec bs "pre @ rest"] by simp
qed


subsection \<open>The recognition stage\<close>

text \<open>
  C2, as amended. A request that reaches the engine call (the stages before it went
  through, the recogniser was constructed and the converted file was read) and whose
  engine call raises an instance \<open>e\<close> of \<open>Exception\<close>, or returns the empty object, or
  returns an object whose \<open>track\<close> is absent or null: the exception is absorbed, the
  handler goes on to the reply, and in all three cases the reply is the one fixed no-match
  text. The handler ends the way the sending of that reply ends, so nothing the engine
  raised leaves it. The three traces differ only in the line printed for the operator
  when the engine raised.
\<close>

theorem recognition_failure_is_no_match:
  assumes "message upd = Some msg" and "resolve_attachment msg = Some (k, a, h)"
    and "get_file_out E a = Inr fo" and "send_out E (ChatAction ''typing'') = None"
    and "mkdtemp_out E (fs w) = Inr d"
    and "download_out E fo (path_join d h) ((fs w)(d \<mapsto> Dir)) = (None, f1)"
    and "ffmpeg_out E (ffmpeg_cmd (path_join d h) (path_join d ''converted.wav'')) f1 =
           (Inr status, f2)"
    and "shazam_out E = None"
    and "f2 (path_join d ''converted.wav'') = Some (File b)"
    and "(recognize_out E b = Inl e \<and> is_exception e) \<or> recognize_out E b = Inr (PDict []) \<or>
         (recognize_out E b = Inr (PDict kvs) \<and>
            (map_of kvs ''track'' = None \<or> map_of kvs ''track'' = Some PNone))"
  shows "fst (handle_msg E upd w) = send_out E (ReplyText MSG_NO_MATCH) \<and>
         trace (snd (handle_msg E upd w)) =
           trace w @ [GetFile k a, ChatAction ''typing'', MkDTemp d, Download fo (path_join d h),
                      Ffmpeg (ffmpeg_cmd (path_join d h) (path_join d ''converted.wav'')),
                      NewShazam, ReadFile (path_join d ''converted.wav''), Recognize b]
             @ (case recognize_out E b of
                  Inl e \<Rightarrow> [Print ''shazam recognition error:'' e]
                | Inr out \<Rightarrow> [])
             @ [ReplyText MSG_NO_MATCH, Cleanup d]"
proof -
  let ?w0 = "w\<lparr>trace := trace w @ [GetFile k a, ChatAction ''typing'']\<rparr>"
  let ?w1 = "emit (MkDTemp d) (?w0\<lparr>fs := (fs ?w0)(d \<mapsto> Dir)\<rparr>)"
  have mk: "mkdtemp_out E (fs ?w0) = Inr d"
    using assms(5) by simp
  have dl: "download_out E fo (path_join d h) (fs ?w1) = (None, f1)"
    using assms(6) by (simp add: emit_def)
  have caught: "is_exception e'" if "recognize_out E b = Inl e'" for e'
    using that assms(10) by auto
  have none: "\<not> truthy (track_of (case recognize_out E b of Inl e \<Rightarrow> PDict [] | Inr out \<Rightarrow> out))"
    using assms(10) by (auto simp: track_of_def)
  have body: "process_in_tmpdir E fo h d ?w1 =
      reply_text E MSG_NO_MATCH
        (?w1\<lparr>fs := f2,
           trace := trace ?w1 @
             [Download fo (path_join d h),
              Ffmpeg (ffmpeg_cmd (path_join d h) (path_join d ''converted.wav'')),
              NewShazam, ReadFile (path_join d ''converted.wav''), Recognize b]
             @ (case recognize_out E b of
                  Inl e \<Rightarrow> [Print ''shazam recognition error:'' e]
                | Inr out \<Rightarrow> [])\<rparr>)"
    using process_reaches_respond [OF dl assms(7) assms(8) assms(9) caught]
      respond_no_track [OF none]
    by simp
  have "handle_msg E upd w = with_tmpdir E (process_in_tmpdir E fo h) ?w0"
    by (rule handle_msg_enters [OF assms(1-4)])
  then show ?thesis
    by (simp only: with_tmpdir_unfold [OF mk] body) (simp add: reply_text_def emit_def)
qed

theorem recognition_failure_is_no_match_witness:
  "trace (snd (handle_msg (stub_env None (Inr 0) (Some (File ''wav'')) (Inl (External ''ClientError'')))
       voice_request idle)) =
     [GetFile Voice clip, ChatAction ''typing'', MkDTemp ''/tmp/tmpq0'',
      Download ''f1'' ''/tmp/tmpq0/voice_u1.ogg'',
      Ffmpeg (ffmpeg_cmd ''/tmp/tmpq0/voice_u1.ogg'' ''/tmp/tmpq0/converted.wav''),
      NewShazam, ReadFile ''/tmp/tmpq0/converted.wav'', Recognize ''wav'',
      Print ''shazam recognition error:'' (External ''ClientError''),
      ReplyText MSG_NO_MATCH, Cleanup ''/tmp/tmpq0''] \<and>
   trace (snd (handle_msg (stub_env None (Inr 0) (Some (File ''wav'')) (Inr (PDict [])))
       voice_request idle)) =
     [GetFile Voice clip, ChatAction ''typing'', MkDTemp ''/tmp/tmpq0'',
      Download ''f1'' ''/tmp/tmpq0/voice_u1.ogg'',
      Ffmpeg (ffmpeg_cmd ''/tmp/tmpq0/voice_u1.ogg'' ''/tmp/tmpq0/converted.wav''),
      NewShazam, ReadFile ''/tmp/tmpq0/converted.wav'', Recognize ''wav'',
      ReplyText MSG_NO_MATCH, Cleanup ''/tmp/tmpq0''] \<and>
   trace (snd (handle_msg (stub_env None (Inr 0) (Some (File ''wav'')) (Inr (PDict [(''track'', PNone)])))
       voice_request idle)) =
     [GetFile Voice clip, ChatAction ''typing'', MkDTemp ''/tmp/tmpq0'',
      Download ''f1'' ''/tmp/tmpq0/voice_u1.ogg'',
      Ffmpeg (ffmpeg_cmd ''/tmp/tmpq0/voice_u1.ogg'' ''/tmp/tmpq0/converted.wav''),
      NewShazam, ReadFile ''/tmp/tmpq0/converted.wav'', Recognize ''wav'',
      ReplyText MSG_NO_MATCH, Cleanup ''/tmp/tmpq0'']"
proof -
  have run: "trace (snd (handle_msg (stub_env None (Inr 0) (Some (File ''wav'')) rc) voice_request idle)) =
     [GetFile Voice clip, ChatAction ''typing'', MkDTemp ''/tmp/tmpq0'',
      Download ''f1'' ''/tmp/tmpq0/voice_u1.ogg'',
      Ffmpeg (ffmpeg_cmd ''/tmp/tmpq0/voice_u1.ogg'' ''/tmp/tmpq0/converted.wav''),
      NewShazam, ReadFile ''/tmp/tmpq0/converted.wav'', Recognize ''wav'']
      @ (case rc of Inl e \<Rightarrow> [Print ''shazam recognition error:'' e] | Inr out \<Rightarrow> [])
      @ [ReplyText MSG_NO_MATCH, Cleanup ''/tmp/tmpq0'']"
    if "(rc = Inl e \<and> is_exception e) \<or> rc = Inr (PDict []) \<or>
         (rc = Inr (PDict kvs) \<and> (map_of kvs ''track'' = None \<or> map_of kvs ''track'' = Some PNone))"
    for rc e kvs
    using that recognition_failure_is_no_match
      [of voice_request "no_attachment\<lparr>voice := Some clip\<rparr>" Voice clip "''voice_u1.ogg''"
          "stub_env None (Inr 0) (Some (File ''wav'')) rc" "''f1''" idle "''/tmp/tmpq0''"
          "(fs idle)(''/tmp/tmpq0'' \<mapsto> Dir, ''/tmp/tmpq0/voice_u1.ogg'' \<mapsto> File ''raw'')" 0
          "(fs idle)(''/tmp/tmpq0'' \<mapsto> Dir, ''/tmp/tmpq0/voice_u1.ogg'' \<mapsto> File ''raw'',
              ''/tmp/tmpq0/converted.wav'' \<mapsto> File ''wav'')" "''wav''" e kvs]
    by (simp add: voice_request_def no_attachment_def resolve_attachment_def clip_def
        stub_env_def sample_paths ffmpeg_cmd_def idle_def)
  show ?thesis
    using run [of "Inl (External ''ClientError'')" "External ''ClientError''" "[]"]
      run [of "Inr (PDict [])" "External ''ClientError''" "[]"]
      run [of "Inr (PDict [(''track'', PNone)])" "External ''ClientError''" "[(''track'', PNone)]"]
    by simp
qed

text \<open>
  C2 as it was stated, with every exception of the recognition stage absorbed, does not
  hold. The file is opened before the \<open>try\<close>: when the subprocess has left a directory at
  the output path, the conversion counts as done, \<open>open\<close> raises, and the exception leaves
  the handler with no reply. And \<open>except Exception\<close> does not catch the cancellation of
  the task during the engine call: it leaves the handler with no reply as well.
\<close>

theorem recognition_stage_exception_escapes:
  "fst (handle_msg (stub_env None (Inr 0) (Some Dir) (Inl (External ''ClientError'')))
          voice_request idle) = Some IsADirectoryError \<and>
   trace (snd (handle_msg (stub_env None (Inr 0) (Some Dir) (Inl (External ''ClientError'')))
          voice_request idle)) =
     [GetFile Voice clip, ChatAction ''typing'', MkDTemp ''/tmp/tmpq0'',
      Download ''f1'' ''/tmp/tmpq0/voice_u1.ogg'',
      Ffmpeg (ffmpeg_cmd ''/tmp/tmpq0/voice_u1.ogg'' ''/tmp/tmpq0/converted.wav''),
      NewShazam, ReadFile ''/tmp/tmpq0/converted.wav'', Cleanup ''/tmp/tmpq0''] \<and>
   fst (handle_msg (stub_env None (Inr 0) (Some (File ''wav'')) (Inl CancelledError))
          voice_request idle) = Some CancelledError \<and>
   trace (snd (handle_msg (stub_env None (Inr 0) (Some (File ''wav'')) (Inl CancelledError))
          voice_request idle)) =
     [GetFile Voice clip, ChatAction ''typing'', MkDTemp ''/tmp/tmpq0'',
      Download ''f1'' ''/tmp/tmpq0/voice_u1.ogg'',
      Ffmpeg (ffmpeg_cmd ''/tmp/tmpq0/voice_u1.ogg'' ''/tmp/tmpq0/converted.wav''),
      NewShazam, ReadFile ''/tmp/tmpq0/converted.wav'', Recognize ''wav'',
      Cleanup ''/tmp/tmpq0'']"
  by (simp add: handle_msg_def voice_request_def no_attachment_def resolve_attachment_def
      clip_def stub_env_def idle_def Let_def reply_chat_action_def emit_def with_tmpdir_def
      process_in_tmpdir_def convert_to_wav_def exists_def recognize_with_shazam_def
      read_bytes_def sample_paths ffmpeg_cmd_def)


subsection \<open>The response formatter\<close>

text \<open>
  C5, as amended. A response whose track has the title \<open>X\<close> and the subtitle \<open>Y\<close> (an
  empty one is replaced by the placeholder) and a sections list in which, after sections
  that are dictionaries without a link, a section's hub lists, after providers that are
  dictionaries of other types, a provider of type \<open>youtube\<close> whose first action has the
  URI \<open>U\<close>: the reply is the heading with \<open>X\<close>, the artist line with \<open>Y\<close>, and the link
  line with \<open>U\<close> at its end. The providers and the sections after this first provider of
  type \<open>youtube\<close> (\<open>ppost\<close>, \<open>post\<close>) are arbitrary and have no influence: the first one
  found is the one whose link is sent.
\<close>

theorem first_youtube_link_wins:
  assumes "map_of resp ''track'' = Some (PDict tr)"
    and "map_of tr ''title'' = Some (PStr X)"
    and "map_of tr ''subtitle'' = Some (PStr Y)"
    and "map_of tr ''sections'' = Some (PList (pre @ PDict sec # post))"
    and "list_all plain_section pre"
    and "map_of sec ''hub'' = Some (PDict hub)"
    and "map_of hub ''providers'' = Some (PList (ppre @ PDict p # ppost))"
    and "list_all plain_provider ppre"
    and "map_of p ''type'' = Some (PStr ''youtube'')"
    and "map_of p ''actions'' = Some (PList (PDict act # acts))"
    and "map_of act ''uri'' = Some (PStr U)"
  shows "\<exists>R. respond E (track_of (PDict resp)) w = reply_text E R w \<and>
           R = REPLY_HEAD @ (if X = [] then ''---'' else X) @ REPLY_MID
                 @ (if Y = [] then ''---'' else Y) @ LINK_PREFIX @ U \<and>
           sublist X R \<and> sublist Y R \<and> suffix U R"
proof -
  let ?R = "REPLY_HEAD @ (if X = [] then ''---'' else X) @ REPLY_MID
              @ (if Y = [] then ''---'' else Y) @ LINK_PREFIX @ U"
  have tr: "tr \<noteq> []" and hub: "hub \<noteq> []"
    using assms(2) assms(7) by auto
  have prov: "scan_providers (builtin_str E) (ppre @ PDict p # ppost) = Inr (LINK_PREFIX @ U)"
    using scan_providers_skips [OF assms(8)] scan_providers_hit [OF assms(9-11)] by simp
  have "scan_sections (builtin_str E) (PDict sec # post) = Inr (LINK_PREFIX @ U)"
    using assms(6) assms(7) hub prov link_prefix_not_empty
    by (simp add: py_get_def py_or_def)
  then have "scan_sections (builtin_str E) (pre @ PDict sec # post) = Inr (LINK_PREFIX @ U)"
    using scan_sections_skips [OF assms(5)] by simp
  then have "format_track (builtin_str E) (PDict tr) = Inr ?R"
    using assms(2-4)
    by (simp add: format_track_def py_get_def link_line_def py_or_def py_format_def)
  then have sent: "respond E (track_of (PDict resp)) w = reply_text E ?R w"
    using assms(1) tr by (simp add: respond_def track_of_def)
  have x: "sublist X ?R"
    by (cases "X = []") (simp_all add: sublist_append)
  have "sublist Y ((if Y = [] then ''---'' else Y) @ LINK_PREFIX @ U)"
    by (cases "Y = []") (simp_all add: sublist_append)
  then have y: "sublist Y ?R"
    by (simp add: sublist_append)
  have u: "suffix U ?R"
    by (simp add: suffix_def)
  from sent x y u show ?thesis by blast
qed

theorem first_youtube_link_wins_witness:
  "respond (stub_env None (Inr 0) None (Inr PNone))
     (track_of (PDict [(''track'', PDict
        [(''title'', PStr ''X''), (''subtitle'', PStr ''Y''),
         (''sections'', PList
            [PDict [(''type'', PStr ''SONG'')],
             PDict [(''hub'', PDict [(''providers'', PList
               [PDict [(''type'', PStr ''spotify'')],
                PDict [(''type'', PStr ''youtube''),
                       (''actions'', PList [PDict [(''uri'', PStr ''http://example/u'')]])],
                PDict [(''type'', PStr ''youtube''),
                       (''actions'', PList [PDict [(''uri'', PStr ''http://example/later'')]])]])])],
             PInt 7])])])) idle =
   (None, \<lparr>fs = Map.empty,
           trace = [ReplyText (REPLY_HEAD @ ''X'' @ REPLY_MID @ ''Y'' @ LINK_PREFIX
                      @ ''http://example/u'')]\<rparr>)"
  using first_youtube_link_wins
    [of "[(''track'', PDict
        [(''title'', PStr ''X''), (''subtitle'', PStr ''Y''),
         (''sections'', PList
            [PDict [(''type'', PStr ''SONG'')],
             PDict [(''hub'', PDict [(''providers'', PList
               [PDict [(''type'', PStr ''spotify'')],
                PDict [(''type'', PStr ''youtube''),
                       (''actions'', PList [PDict [(''uri'', PStr ''http://example/u'')]])],
                PDict [(''type'', PStr ''youtube''),
                       (''actions'', PList [PDict [(''uri'', PStr ''http://example/later'')]])]])])],
             PInt 7])])]"
      "[(''title'', PStr ''X''), (''subtitle'', PStr ''Y''),
         (''sections'', PList
            [PDict [(''type'', PStr ''SONG'')],
             PDict [(''hub'', PDict [(''providers'', PList
               [PDict [(''type'', PStr ''spotify'')],
                PDict [(''type'', PStr ''youtube''),
                       (''actions'', PList [PDict [(''uri'', PStr ''http://example/u'')]])],
                PDict [(''type'', PStr ''youtube''),
                       (''actions'', PList [PDict [(''uri'', PStr ''http://example/later'')]])]])])],
             PInt 7])]"
      "''X''" "''Y''" "[PDict [(''type'', PStr ''SONG'')]]"
      "[(''hub'', PDict [(''providers'', PList
               [PDict [(''type'', PStr ''spotify'')],
                PDict [(''type'', PStr ''youtube''),
                       (''actions'', PList [PDict [(''uri'', PStr ''http://example/u'')]])],
                PDict [(''type'', PStr ''youtube''),
                       (''actions'', PList [PDict [(''uri'', PStr ''http://example/later'')]])]])])]"
      "[PInt 7]"
      "[(''providers'', PList
               [PDict [(''type'', PStr ''spotify'')],
                PDict [(''type'', PStr ''youtube''),
                       (''actions'', PList [PDict [(''uri'', PStr ''http://example/u'')]])],
                PDict [(''type'', PStr ''youtube''),
                       (''actions'', PList [PDict [(''uri'', PStr ''http://example/later'')]])]])]"
      "[PDict [(''type'', PStr ''spotify'')]]"
      "[(''type'', PStr ''youtube''),
                       (''actions'', PList [PDict [(''uri'', PStr ''http://example/u'')]])]"
      "[PDict [(''type'', PStr ''youtube''),
                       (''actions'', PList [PDict [(''uri'', PStr ''http://example/later'')]])]]"
      "[(''uri'', PStr ''http://example/u'')]" "[]" "''http://example/u''"
      "stub_env None (Inr 0) None (Inr PNone)" idle]
  by (simp add: reply_text_def emit_def stub_env_def idle_def)

text \<open>
  C5 as it was stated does not hold. In a hub whose first provider of type \<open>youtube\<close> has
  no action and whose second one has the URI, the scan stops at the first: the link line
  is sent without a URI, and the URI of the hub's other \<open>youtube\<close> provider is not in the
  reply. And when a section before the hub is not a dictionary, no reply is sent at all:
  \<open>sec.get\<close> raises.
\<close>

theorem youtube_uri_not_in_reply:
  "respond (stub_env None (Inr 0) None (Inr PNone))
     (track_of (PDict [(''track'', PDict
        [(''title'', PStr ''X''), (''subtitle'', PStr ''Y''),
         (''sections'', PList
            [PDict [(''hub'', PDict [(''providers'', PList
               [PDict [(''type'', PStr ''youtube'')],
                PDict [(''type'', PStr ''youtube''),
                       (''actions'', PList [PDict [(''uri'', PStr ''http://example/u'')]])]])])]])])]))
     idle =
   (None, \<lparr>fs = Map.empty,
           trace = [ReplyText (REPLY_HEAD @ ''X'' @ REPLY_MID @ ''Y'' @ LINK_PREFIX)]\<rparr>) \<and>
   \<not> sublist ''http://example/u'' (REPLY_HEAD @ ''X'' @ REPLY_MID @ ''Y'' @ LINK_PREFIX) \<and>
   respond (stub_env None (Inr 0) None (Inr PNone))
     (track_of (PDict [(''track'', PDict
        [(''title'', PStr ''X''), (''subtitle'', PStr ''Y''),
         (''sections'', PList
            [PStr ''LYRICS'',
             PDict [(''hub'', PDict [(''providers'', PList
               [PDict [(''type'', PStr ''youtube''),
                       (''actions'', PList [PDict [(''uri'', PStr ''http://example/u'')]])]])])]])])]))
     idle =
   (Some AttributeError, idle)"
proof -
  have "CHR ''h'' \<notin> set (REPLY_HEAD @ ''X'' @ REPLY_MID @ ''Y'' @ LINK_PREFIX)"
    by (simp add: REPLY_HEAD_def REPLY_MID_def LINK_PREFIX_def)
  then have "\<not> sublist ''http://example/u'' (REPLY_HEAD @ ''X'' @ REPLY_MID @ ''Y'' @ LINK_PREFIX)"
    using set_mono_sublist [of "''http://example/u''"
        "REPLY_HEAD @ ''X'' @ REPLY_MID @ ''Y'' @ LINK_PREFIX"]
    by auto
  then show ?thesis
    by (simp add: respond_def track_of_def format_track_def py_get_def link_line_def py_or_def
        py_format_def first_action_uri_def reply_text_def emit_def stub_env_def idle_def)
qed

text \<open>
  C8, as amended. A response with a track, that is a dictionary: when the dictionary is
  empty, the handler takes it for no track and sends the no-match text. When it is not
  empty and its title is missing, null or empty, the reply that is sent once the scan of
  the sections has gone through carries \<open>---\<close> where the title belongs; and the same for
  the subtitle.
\<close>

theorem missing_field_placeholder:
  assumes "map_of resp ''track'' = Some (PDict tr)"
    and "py_get (PDict tr) ''title'' = Inr t"
    and "py_get (PDict tr) ''subtitle'' = Inr s"
    and "py_get (PDict tr) ''sections'' = Inr sections"
    and "link_line (builtin_str E) sections = Inr link"
  shows "(tr = [] \<longrightarrow> respond E (track_of (PDict resp)) w = reply_text E MSG_NO_MATCH w) \<and>
         (tr \<noteq> [] \<and> \<not> truthy t \<longrightarrow>
            respond E (track_of (PDict resp)) w =
              reply_text E (REPLY_HEAD @ ''---'' @ REPLY_MID
                @ py_format (builtin_str E) (py_or s (PStr ''---'')) @ link) w) \<and>
         (tr \<noteq> [] \<and> \<not> truthy s \<longrightarrow>
            respond E (track_of (PDict resp)) w =
              reply_text E (REPLY_HEAD @ py_format (builtin_str E) (py_or t (PStr ''---''))
                @ REPLY_MID @ ''---'' @ link) w)"
  using assms
  by (simp add: respond_def track_of_def format_track_def py_or_def py_format_def)

theorem missing_field_placeholder_witness:
  "respond (stub_env None (Inr 0) None (Inr PNone))
     (track_of (PDict [(''track'', PDict [(''subtitle'', PStr ''Y'')])])) idle =
   (None, \<lparr>fs = Map.empty,
           trace = [ReplyText (REPLY_HEAD @ ''---'' @ REPLY_MID @ ''Y'')]\<rparr>) \<and>
   respond (stub_env None (Inr 0) None (Inr PNone))
     (track_of (PDict [(''track'', PDict [(''title'', PStr ''X''), (''subtitle'', PNone)])])) idle =
   (None, \<lparr>fs = Map.empty,
           trace = [ReplyText (REPLY_HEAD @ ''X'' @ REPLY_MID @ ''---'')]\<rparr>)"
  using
    missing_field_placeholder
      [of "[(''track'', PDict [(''subtitle'', PStr ''Y'')])]" "[(''subtitle'', PStr ''Y'')]"
          PNone "PStr ''Y''" PNone "stub_env None (Inr 0) None (Inr PNone)" "[]" idle]
    missing_field_placeholder
      [of "[(''track'', PDict [(''title'', PStr ''X''), (''subtitle'', PNone)])]"
          "[(''title'', PStr ''X''), (''subtitle'', PNone)]"
          "PStr ''X''" PNone PNone "stub_env None (Inr 0) None (Inr PNone)" "[]" idle]
  by (simp add: py_get_def link_line_def py_or_def py_format_def reply_text_def emit_def
      stub_env_def idle_def)

text \<open>
  C8 as it was stated does not hold. For the track \<open>{}\<close>, whose title is missing, the reply
  is the no-match text, which has no \<open>---\<close> in it. And for a track without a title whose
  sections list holds a number, no reply is sent at all: \<open>sec.get\<close> raises.
\<close>

theorem missing_title_without_placeholder:
  "respond (stub_env None (Inr 0) None (Inr PNone))
     (track_of (PDict [(''track'', PDict [])])) idle =
   (None, \<lparr>fs = Map.empty, trace = [ReplyText MSG_NO_MATCH]\<rparr>) \<and>
   \<not> sublist ''---'' MSG_NO_MATCH \<and>
   respond (stub_env None (Inr 0) None (Inr PNone))
     (track_of (PDict [(''track'', PDict [(''subtitle'', PStr ''Y''),
        (''sections'', PList [PInt 7])])])) idle =
   (Some AttributeError, idle)"
proof -
  have "CHR ''-'' \<notin> set MSG_NO_MATCH"
    by (simp add: MSG_NO_MATCH_def)
  then have "\<not> sublist ''---'' MSG_NO_MATCH"
    using set_mono_sublist [of "''---''" MSG_NO_MATCH] by auto
  then show ?thesis
    by (simp add: respond_def track_of_def format_track_def py_get_def link_line_def py_or_def
        reply_text_def emit_def stub_env_def idle_def)
qed

text \<open>
  C3 does not hold of the handler. For a track whose \<open>youtube\<close> provider has an empty
  \<open>actions\<close> list, \<open>[0]\<close> raises IndexError: the formatter sends no reply and the exception
  leaves it.
\<close>

theorem formatter_raises_on_empty_actions:
  "respond E
     (track_of (PDict [(''track'', PDict
        [(''title'', PStr ''X''), (''subtitle'', PStr ''Y''),
         (''sections'', PList
            [PDict [(''hub'', PDict [(''providers'', PList
               [PDict [(''type'', PStr ''youtube''), (''actions'', PList [])]])])]])])])) w =
   (Some IndexError, w)"
  by (simp add: respond_def track_of_def format_track_def py_get_def link_line_def py_or_def
      first_action_uri_def)


subsection \<open>The temporary directory\<close>

lemma stage_events_no_mkdtemp:
  "list_all stage_event evs \<Longrightarrow> MkDTemp d \<notin> set evs"
proof (induction evs)
  case Nil
  show ?case by simp
next
  case (Cons ev evs)
  then show ?case by (cases ev) simp_all
qed

text \<open>
  C9. Whenever a run of the handler has created a temporary directory \<open>d\<close>, then at the
  end of the run, whether the handler returned or an exception left it (the first
  component of the result is not constrained), \<open>d\<close> is not in the file system any more,
  and neither is any path below it.
\<close>

theorem tmpdir_removed:
  assumes "MkDTemp d \<in> set (trace (snd (handle_msg E upd w)))"
    and "MkDTemp d \<notin> set (trace w)"
  shows "fs (snd (handle_msg E upd w)) d = None \<and>
         (\<forall>p. prefix (d @ ''/'') p \<longrightarrow> fs (snd (handle_msg E upd w)) p = None)"
proof (cases "message upd")
  case None
  then show ?thesis using assms by (simp add: handle_msg_def)
next
  case (Some msg)
  show ?thesis
  proof (cases "resolve_attachment msg")
    case None
    then show ?thesis using assms Some by (simp add: handle_msg_def reply_text_def emit_def)
  next
    case res: (Some r)
    obtain k a h where r: "r = (k, a, h)" by (cases r)
    show ?thesis
    proof (cases "get_file_out E a")
      case (Inl e)
      then show ?thesis using assms Some res r by (simp add: handle_msg_def Let_def emit_def)
    next
      case (Inr fo)
      show ?thesis
      proof (cases "send_out E (ChatAction ''typing'')")
        case typing_failed: (Some e)
        then show ?thesis using assms Some res r Inr
          by (simp add: handle_msg_def Let_def reply_chat_action_def emit_def)
      next
        case None
        let ?w0 = "w\<lparr>trace := trace w @ [GetFile k a, ChatAction ''typing'']\<rparr>"
        have enters: "handle_msg E upd w = with_tmpdir E (process_in_tmpdir E fo h) ?w0"
          using handle_msg_enters [of upd msg k a h E fo w] Some res r Inr None by simp
        show ?thesis
        proof (cases "mkdtemp_out E (fs ?w0)")
          case no_dir: (Inl e)
          then show ?thesis using assms enters by (simp add: with_tmpdir_def)
        next
          case made: (Inr d')
          let ?w1 = "emit (MkDTemp d') (?w0\<lparr>fs := (fs ?w0)(d' \<mapsto> Dir)\<rparr>)"
          obtain evs where evs: "trace (snd (process_in_tmpdir E fo h d' ?w1)) = trace ?w1 @ evs"
              "list_all stage_event evs"
            using process_adds [of E fo h d' ?w1] by auto
          have final: "handle_msg E upd w =
              (fst (process_in_tmpdir E fo h d' ?w1),
               emit (Cleanup d')
                 ((snd (process_in_tmpdir E fo h d' ?w1))
                    \<lparr>fs := rmtree d' (fs (snd (process_in_tmpdir E fo h d' ?w1)))\<rparr>))"
            using enters with_tmpdir_unfold [OF made, of "process_in_tmpdir E fo h"] by simp
          have "trace (snd (handle_msg E upd w)) =
              trace w @ [GetFile k a, ChatAction ''typing'', MkDTemp d'] @ evs @ [Cleanup d']"
            using final evs(1) by (simp add: emit_def)
          then have "d = d'"
            using assms stage_events_no_mkdtemp [OF evs(2), of d] by auto
          moreover have "fs (snd (handle_msg E upd w)) =
              rmtree d' (fs (snd (process_in_tmpdir E fo h d' ?w1)))"
            using final by (simp add: emit_def)
          ultimately show ?thesis by (simp add: rmtree_def)
        qed
      qed
    qed
  qed
qed

theorem tmpdir_removed_witness:
  "fst (handle_msg (stub_env None (Inr 0) (Some Dir) (Inr PNone)) voice_request idle) =
     Some IsADirectoryError \<and>
   MkDTemp ''/tmp/tmpq0'' \<in>
     set (trace (snd (handle_msg (stub_env None (Inr 0) (Some Dir) (Inr PNone)) voice_request idle))) \<and>
   fs (snd (handle_msg (stub_env None (Inr 0) (Some Dir) (Inr PNone)) voice_request idle))
     ''/tmp/tmpq0'' = None \<and>
   fs (snd (handle_msg (stub_env None (Inr 0) (Some Dir) (Inr PNone)) voice_request idle))
     ''/tmp/tmpq0/converted.wav'' = None"
proof -
  let ?E = "stub_env None (Inr 0) (Some Dir) (Inr PNone)"
  have run: "handle_msg ?E voice_request idle =
      (Some IsADirectoryError,
       \<lparr>fs = rmtree ''/tmp/tmpq0''
               (Map.empty(''/tmp/tmpq0'' \<mapsto> Dir, ''/tmp/tmpq0/voice_u1.ogg'' \<mapsto> File ''raw'',
                  ''/tmp/tmpq0/converted.wav'' \<mapsto> Dir)),
        trace = [GetFile Voice clip, ChatAction ''typing'', MkDTemp ''/tmp/tmpq0'',
                 Download ''f1'' ''/tmp/tmpq0/voice_u1.ogg'',
                 Ffmpeg (ffmpeg_cmd ''/tmp/tmpq0/voice_u1.ogg'' ''/tmp/tmpq0/converted.wav''),
                 NewShazam, ReadFile ''/tmp/tmpq0/converted.wav'', Cleanup ''/tmp/tmpq0'']\<rparr>)"
    by (simp add: handle_msg_def voice_request_def no_attachment_def resolve_attachment_def
        clip_def stub_env_def idle_def Let_def reply_chat_action_def emit_def with_tmpdir_def
        process_in_tmpdir_def convert_to_wav_def exists_def recognize_with_shazam_def
        read_bytes_def sample_paths ffmpeg_cmd_def)
  have made: "MkDTemp ''/tmp/tmpq0'' \<in> set (trace (snd (handle_msg ?E voice_request idle)))"
    by (simp add: run)
  have fresh: "MkDTemp ''/tmp/tmpq0'' \<notin> set (trace idle)"
    by (simp add: idle_def)
  have "prefix (''/tmp/tmpq0'' @ ''/'') ''/tmp/tmpq0/converted.wav''"
    by simp
  then show ?thesis
    using tmpdir_removed [OF made fresh] made by (simp add: run)
qed


end
